theory Spec2Isabelle
  imports Main "HOL-Library.Word"
begin

section \<open>Addresses: Go's net.IP\<close>

text \<open>
  A net.IP is a byte slice. The nil slice is the empty list: the code under study only
  asks of an address whether it is nil, its length and its bytes, and only ever compares
  with nil the results of To4 and ParseIP, which are nil or hold 4 or 16 bytes.
\<close>

type_synonym byte = "8 word"
type_synonym IP = "byte list"

definition IPv4len :: nat where
  "IPv4len = 4"

definition IPv6len :: nat where
  "IPv6len = 16"

definition v4InV6Prefix :: "byte list" where
  "v4InV6Prefix = [0, 0, 0, 0, 0, 0, 0, 0, 0, 0, 0xff, 0xff]"

definition isZeros :: "byte list \<Rightarrow> bool" where
  "isZeros p = list_all (\<lambda>b. b = 0) p"

text \<open>net.IPv4(a, b, c, d): the 16-byte form of an IPv4 address.\<close>

definition net_IPv4 :: "byte \<Rightarrow> byte \<Rightarrow> byte \<Rightarrow> byte \<Rightarrow> IP" where
  "net_IPv4 a b c d = v4InV6Prefix @ [a, b, c, d]"

text \<open>
  ip.To4(): the 4-byte form of an address that has one (a 4-byte slice, or a 16-byte slice
  with the IPv4-in-IPv6 prefix), nil otherwise.
\<close>

definition To4 :: "IP \<Rightarrow> IP" where
  "To4 ip =
     (if length ip = IPv4len then ip
      else if length ip = IPv6len \<and> isZeros (take 10 ip) \<and> ip ! 10 = 0xff \<and> ip ! 11 = 0xff
        then drop 12 ip
      else [])"

text \<open>ip.Equal(x): equality of addresses, a 4-byte form being equal to its 16-byte form.\<close>

definition Equal :: "IP \<Rightarrow> IP \<Rightarrow> bool" where
  "Equal ip x =
     (if length ip = length x then ip = x
      else if length ip = IPv4len \<and> length x = IPv6len
        then take 12 x = v4InV6Prefix \<and> ip = drop 12 x
      else if length ip = IPv6len \<and> length x = IPv4len
        then take 12 ip = v4InV6Prefix \<and> drop 12 ip = x
      else False)"

section \<open>What the providers call outside their own files\<close>

text \<open>
  The providers call library functions whose code is not part of the two provider files:
  net.ParseIP and net.IP.String (text to address and back), strings.EqualFold (equality
  under Unicode case folding) and the repository's utils.BodyToSingleLine. They are
  parameters of the model: every theorem below holds for whatever these functions
  compute.
\<close>

record library =
  ParseIP :: "string \<Rightarrow> IP"
  IP_String :: "IP \<Rightarrow> string"
  EqualFold :: "string \<Rightarrow> string \<Rightarrow> bool"
  BodyToSingleLine :: "string \<Rightarrow> string"

text \<open>
  Modelled from the spec: the address family preference of a provider (either family,
  IPv4 only, IPv6 only); the type is declared in pkg/publicip/ipversion.
\<close>

datatype IPVersion = IP4or6 | IP4 | IP6

text \<open>
  The sentinel errors of internal/settings/errors, one constructor each; an error built
  with fmt.Errorf around a sentinel carries the values that are formatted into it.
  \<open>LibraryError\<close> is an error handed back by a library call (json.Unmarshal,
  http.NewRequestWithContext, the HTTP client, the alidns SDK).
\<close>

datatype error =
    ErrEmptyUsername
  | ErrEmptyPassword
  | ErrEmptyName
  | ErrHostOnlyAt
  | ErrEmptyAccessKeyID
  | ErrEmptyAccessKeySecret
  | ErrBadHTTPStatus int string
  | ErrUnmarshalResponse string
  | ErrUnsuccessfulResponse string int
  | ErrIPReceivedMalformed string
  | ErrIPReceivedMismatch string
  | ErrRecordNotFound
  | LibraryError string

text \<open>
  A JSON document is seen through the decoder that reads it into a struct \<open>'a\<close>: the
  decoder fails with a message, or fills the struct (a field the document leaves out keeps
  its zero value).
\<close>

datatype 'a json = UnmarshalError string | Unmarshalled 'a

text \<open>
  What Update hands back: Go's pair (newIP, err), or a run-time panic.
\<close>

datatype outcome = Return IP "error option" | Panic_index_out_of_range

section \<open>DonDominio\<close>

record provider =
  domain :: string
  host :: string
  ipVersion :: IPVersion
  username :: string
  password :: string
  name :: string

record extraSettings =
  Username :: string
  Password :: string
  Name :: string

definition dondominio_isValid :: "provider \<Rightarrow> error option" where
  "dondominio_isValid p =
     (if length (provider.username p) = 0 then Some ErrEmptyUsername
      else if length (provider.password p) = 0 then Some ErrEmptyPassword
      else if length (provider.name p) = 0 then Some ErrEmptyName
      else if provider.host p \<noteq> ''@'' then Some ErrHostOnlyAt
      else None)"

definition dondominio_New ::
  "extraSettings json \<Rightarrow> string \<Rightarrow> string \<Rightarrow> IPVersion \<Rightarrow> error + provider" where
  "dondominio_New = (\<lambda>data domain host ipVersion.
     (case data of
        UnmarshalError err \<Rightarrow> Inl (LibraryError err)
      | Unmarshalled extraSettings \<Rightarrow>
          (let host = (if length host = 0 then ''@'' else host);
               p = \<lparr> provider.domain = domain,
                     provider.host = host,
                     provider.ipVersion = ipVersion,
                     provider.username = Username extraSettings,
                     provider.password = Password extraSettings,
                     provider.name = Name extraSettings \<rparr>
           in case dondominio_isValid p of
                Some err \<Rightarrow> Inl err
              | None \<Rightarrow> Inr p)))"

definition dondominio_Host :: "provider \<Rightarrow> string" where
  "dondominio_Host p = provider.host p"

subsection \<open>The HTTP exchange\<close>

text \<open>
  url.Values: a map from parameter names to their values; Set replaces the values of a
  name by one value.
\<close>

type_synonym Values = "string \<rightharpoonup> string list"

definition Values_Set :: "Values \<Rightarrow> string \<Rightarrow> string \<Rightarrow> Values" where
  "Values_Set v key val = v(key \<mapsto> [val])"

text \<open>
  The headers package is not part of the provider file: each of its calls is kept by name,
  with its argument, in the order made.
\<close>

datatype header = SetUserAgent | SetContentType string | SetAccept string

text \<open>
  The request body is the reader over values.Encode(): it is kept as the values it
  encodes.
\<close>

record request =
  Method :: string
  URL :: string
  Body :: Values
  Header :: "header list"

datatype Context = nil_Context | live_Context

text \<open>
  http.NewRequestWithContext, called with the constant method POST and the constant URL of
  the provider: it fails only on a nil context.
\<close>

definition NewRequestWithContext ::
  "Context \<Rightarrow> string \<Rightarrow> string \<Rightarrow> Values \<Rightarrow> error + request" where
  "NewRequestWithContext ctx method url body =
     (if ctx = nil_Context then Inl (LibraryError ''net/http: nil Context'')
      else Inr \<lparr> Method = method, URL = url, Body = body, Header = [] \<rparr>)"

definition setHeaders :: "request \<Rightarrow> request" where
  "setHeaders request =
     request\<lparr> Header := Header request @
       [SetUserAgent, SetContentType ''application/x-www-form-urlencoded'',
        SetAccept ''application/json''] \<rparr>"

record gluerecord =
  IPv4 :: string
  IPv6 :: string

record ResponseData =
  GlueRecords :: "gluerecord list"

record responseData =
  Success :: bool
  ErrorCode :: int
  ErrorCodeMessage :: string
  ResponseData :: ResponseData

text \<open>
  An HTTP response: its status code and its body, the latter both as the text that
  BodyToSingleLine reads and as what the JSON decoder makes of it.
\<close>

record response =
  StatusCode :: int
  Body_text :: string
  Body_json :: "responseData json"

text \<open>
  The client is the function from the request to what client.Do returns. Update gives
  back, next to its result, the requests it handed to the client, in order. Its body is
  written in three parts, in the order of the source: the form values (the lines from
  \<open>values := url.Values{}\<close> to the choice of the ipv4 or ipv6 parameter), the
  exchange with the client, and the reading of the response (from the status check to
  the last return).
\<close>

definition dondominio_values :: "library \<Rightarrow> provider \<Rightarrow> IP \<Rightarrow> bool \<Rightarrow> Values" where
  "dondominio_values L p ip isIPv4 =
     (let values = Map.empty;
          values = Values_Set values ''apiuser'' (provider.username p);
          values = Values_Set values ''apipasswd'' (provider.password p);
          values = Values_Set values ''domain'' (provider.domain p);
          values = Values_Set values ''name'' (provider.name p)
      in if isIPv4 then Values_Set values ''ipv4'' (IP_String L ip)
         else Values_Set values ''ipv6'' (IP_String L ip))"

definition dondominio_response :: "library \<Rightarrow> IP \<Rightarrow> bool \<Rightarrow> response \<Rightarrow> outcome" where
  "dondominio_response L ip isIPv4 response =
     (if StatusCode response \<noteq> 200
      then Return [] (Some (ErrBadHTTPStatus (StatusCode response)
                              (BodyToSingleLine L (Body_text response))))
      else case Body_json response of
        UnmarshalError err \<Rightarrow> Return [] (Some (ErrUnmarshalResponse err))
      | Unmarshalled responseData \<Rightarrow>
          (if \<not> Success responseData
           then Return [] (Some (ErrUnsuccessfulResponse (ErrorCodeMessage responseData)
                                   (ErrorCode responseData)))
           else case GlueRecords (ResponseData responseData) of
             [] \<Rightarrow> Panic_index_out_of_range
           | first # _ \<Rightarrow>
               (let ipString = (if \<not> isIPv4 then IPv6 first else IPv4 first);
                    newIP = ParseIP L ipString
                in if newIP = [] then Return [] (Some (ErrIPReceivedMalformed ipString))
                   else if \<not> Equal ip newIP
                     then Return [] (Some (ErrIPReceivedMismatch (IP_String L newIP)))
                   else Return newIP None)))"

definition dondominio_Update ::
  "library \<Rightarrow> provider \<Rightarrow> Context \<Rightarrow> (request \<Rightarrow> error + response) \<Rightarrow> IP
     \<Rightarrow> outcome \<times> request list" where
  "dondominio_Update L p ctx client ip =
     (let u = ''https://simple-api.dondominio.net'';
          isIPv4 = (To4 ip \<noteq> []);
          values = dondominio_values L p ip isIPv4
      in case NewRequestWithContext ctx ''POST'' u values of
           Inl err \<Rightarrow> (Return [] (Some err), [])
         | Inr request \<Rightarrow>
             (let request = setHeaders request
              in case client request of
                   Inl err \<Rightarrow> (Return [] (Some err), [request])
                 | Inr response \<Rightarrow> (dondominio_response L ip isIPv4 response, [request])))"

section \<open>Aliyun\<close>

record Provider =
  domain :: string
  host :: string
  ipVersion :: IPVersion
  accessKeyID :: string
  accessSecret :: string
  region :: string

record aliyun_extraSettings =
  AccessKeyID :: string
  AccessSecret :: string
  Region :: string

definition aliyun_isValid :: "Provider \<Rightarrow> error option" where
  "aliyun_isValid p =
     (if Provider.accessKeyID p = '''' then Some ErrEmptyAccessKeyID
      else if Provider.accessSecret p = '''' then Some ErrEmptyAccessKeySecret
      else None)"

definition aliyun_New ::
  "aliyun_extraSettings json \<Rightarrow> string \<Rightarrow> string \<Rightarrow> IPVersion \<Rightarrow> error + Provider" where
  "aliyun_New = (\<lambda>data domain host ipVersion.
     (case data of
        UnmarshalError err \<Rightarrow> Inl (LibraryError err)
      | Unmarshalled extraSettings \<Rightarrow>
          (let p = \<lparr> Provider.domain = domain,
                     Provider.host = host,
                     Provider.ipVersion = ipVersion,
                     Provider.accessKeyID = AccessKeyID extraSettings,
                     Provider.accessSecret = AccessSecret extraSettings,
                     Provider.region = ''cn-hangzhou'' \<rparr>;
               p = (if Region extraSettings \<noteq> ''''
                    then p\<lparr> Provider.region := Region extraSettings \<rparr> else p)
           in case aliyun_isValid p of
                Some err \<Rightarrow> Inl err
              | None \<Rightarrow> Inr p)))"

definition aliyun_Host :: "Provider \<Rightarrow> string" where
  "aliyun_Host p = Provider.host p"

subsection \<open>The alidns SDK\<close>

text \<open>
  Modelled from the spec: the record types of internal/settings/constants, A for an IPv4
  address and AAAA for an IPv6 address.
\<close>

definition constants_A :: string where
  "constants_A = ''A''"

definition constants_AAAA :: string where
  "constants_AAAA = ''AAAA''"

text \<open>
  The requests and responses of the SDK, with the fields the provider writes or reads.
  The response of UpdateDomainRecord holds a request identifier and a record identifier,
  and no address; the provider discards it.
\<close>

record alidns_Record =
  RR :: string
  RecordId :: string

record DescribeDomainRecordsRequest =
  Scheme :: string
  DomainName :: string
  RRKeyWord :: string

record DescribeDomainRecordsResponse =
  DomainRecords :: "alidns_Record list"

record UpdateDomainRecordRequest =
  Scheme :: string
  Value :: string
  Type :: string
  RR :: string
  RecordId :: string

record UpdateDomainRecordResponse =
  RequestId :: string
  RecordId :: string

record Client =
  DescribeDomainRecords ::
    "DescribeDomainRecordsRequest \<Rightarrow> error + DescribeDomainRecordsResponse"
  UpdateDomainRecord ::
    "UpdateDomainRecordRequest \<Rightarrow> error + UpdateDomainRecordResponse"

datatype call =
    Call_DescribeDomainRecords DescribeDomainRecordsRequest
  | Call_UpdateDomainRecord UpdateDomainRecordRequest

text \<open>
  The loop over the listed records: the identifier of the first record whose RR equals the
  host under case folding, the empty string when the loop ends without one.
\<close>

fun find_recordID :: "library \<Rightarrow> string \<Rightarrow> alidns_Record list \<Rightarrow> string" where
  "find_recordID L h [] = ''''"
| "find_recordID L h (record # records) =
     (if EqualFold L (alidns_Record.RR record) h then alidns_Record.RecordId record
      else find_recordID L h records)"

text \<open>
  Update takes alidns.NewClientWithAccessKey as the function from region, key and secret to
  the client or an error (the HTTP client that Update is given is not used). It gives
  back, next to its result, the calls it made on the client, in order.
\<close>

definition aliyun_Update ::
  "library \<Rightarrow> Provider \<Rightarrow> (string \<Rightarrow> string \<Rightarrow> string \<Rightarrow> error + Client) \<Rightarrow> IP
     \<Rightarrow> outcome \<times> call list" where
  "aliyun_Update L p NewClientWithAccessKey ip =
     (let recordType = (if To4 ip = [] then constants_AAAA else constants_A)
      in case NewClientWithAccessKey (Provider.region p) (Provider.accessKeyID p)
                (Provider.accessSecret p) of
           Inl err \<Rightarrow> (Return [] (Some err), [])
         | Inr client \<Rightarrow>
             (let listRequest = \<lparr> DescribeDomainRecordsRequest.Scheme = ''https'',
                                   DomainName = Provider.domain p,
                                   RRKeyWord = Provider.host p \<rparr>
              in case DescribeDomainRecords client listRequest of
                   Inl err \<Rightarrow>
                     (Return [] (Some err), [Call_DescribeDomainRecords listRequest])
                 | Inr resp \<Rightarrow>
                     (let recordID = find_recordID L (Provider.host p) (DomainRecords resp)
                      in if recordID = ''''
                         then (Return [] (Some ErrRecordNotFound),
                               [Call_DescribeDomainRecords listRequest])
                         else
                           (let request = \<lparr> UpdateDomainRecordRequest.Scheme = ''https'',
                                             Value = IP_String L ip,
                                             Type = recordType,
                                             UpdateDomainRecordRequest.RR = Provider.host p,
                                             UpdateDomainRecordRequest.RecordId = recordID \<rparr>
                            in case UpdateDomainRecord client request of
                                 Inl err \<Rightarrow>
                                   (Return ip (Some err),
                                    [Call_DescribeDomainRecords listRequest,
                                     Call_UpdateDomainRecord request])
                               | Inr _ \<Rightarrow>
                                   (Return ip None,
                                    [Call_DescribeDomainRecords listRequest,
                                     Call_UpdateDomainRecord request])))))"

section \<open>A library to run the model on\<close>

text \<open>
  The theorems below hold for every \<open>library\<close>. To evaluate the providers on concrete
  inputs, \<open>golib\<close> gives the library functions on the inputs the examples use: ParseIP
  on dotted-decimal text (after the net package's dtoi and parseIPv4), String on every
  address, EqualFold on ASCII text, and a BodyToSingleLine that drops the line breaks of
  the body.
\<close>

definition big :: nat where
  "big = 0xFFFFFF"

definition isDigit :: "char \<Rightarrow> bool" where
  "isDigit c = (48 \<le> (of_char c :: nat) \<and> (of_char c :: nat) \<le> 57)"

text \<open>
  The loop of dtoi: the number read so far and the count of digits read, over what is left
  of the text; the flag is false when the number reaches \<open>big\<close>.
\<close>

fun dtoi_loop :: "string \<Rightarrow> nat \<Rightarrow> nat \<Rightarrow> nat \<times> nat \<times> bool" where
  "dtoi_loop [] n i = (n, i, True)"
| "dtoi_loop (c # s) n i =
     (if isDigit c
      then (let n = n * 10 + (of_char c - 48)
            in if n \<ge> big then (big, i, False) else dtoi_loop s n (i + 1))
      else (n, i, True))"

definition dtoi :: "string \<Rightarrow> nat \<times> nat \<times> bool" where
  "dtoi s =
     (case dtoi_loop s 0 0 of
        (n, i, ok) \<Rightarrow> if \<not> ok then (n, i, False) else if i = 0 then (0, 0, False) else (n, i, True))"

text \<open>
  The loop of parseIPv4, with the octets still to read as its counter and the octets read
  as a list: nil on a missing octet, a missing dot, a number that is no octet or has a
  leading zero, or text left over.
\<close>

fun parseIPv4_loop :: "nat \<Rightarrow> string \<Rightarrow> byte list \<Rightarrow> IP" where
  "parseIPv4_loop 0 s p =
     (if length s \<noteq> 0 then [] else net_IPv4 (p ! 0) (p ! 1) (p ! 2) (p ! 3))"
| "parseIPv4_loop (Suc k) s p =
     (if length s = 0 then []
      else if length p > 0 \<and> hd s \<noteq> CHR ''.'' then []
      else (let s = (if length p > 0 then tl s else s)
            in case dtoi s of
                 (n, c, ok) \<Rightarrow>
                   if \<not> ok \<or> n > 0xFF then []
                   else if c > 1 \<and> hd s = CHR ''0'' then []
                   else parseIPv4_loop k (drop c s) (p @ [of_nat n])))"

definition parseIPv4 :: "string \<Rightarrow> IP" where
  "parseIPv4 s = parseIPv4_loop IPv4len s []"

text \<open>
  ParseIP looks for the first dot or colon: a dot sends the text to parseIPv4. The colon
  branch (parseIPv6) is not part of this library, which answers nil there.
\<close>

definition golib_ParseIP :: "string \<Rightarrow> IP" where
  "golib_ParseIP s =
     (case find (\<lambda>c. c = CHR ''.'' \<or> c = CHR '':'') s of
        None \<Rightarrow> []
      | Some c \<Rightarrow> if c = CHR ''.'' then parseIPv4 s else [])"

definition digit :: "nat \<Rightarrow> char" where
  "digit d = ''0123456789'' ! d"

text \<open>ubtoa: the decimal text of a byte.\<close>

definition ubtoa :: "byte \<Rightarrow> string" where
  "ubtoa v =
     (let n = unat v
      in if n < 10 then [digit n]
         else if n < 100 then [digit (n div 10), digit (n mod 10)]
         else [digit (n div 100), digit ((n div 10) mod 10), digit (n mod 10)])"

text \<open>
  String: the text of the nil address, the dotted text of an address with a 4-byte form,
  a question mark and the bytes in hexadecimal for a slice that has neither 4 nor 16
  bytes, and for the other 16-byte addresses the eight groups in hexadecimal without
  leading zeros, separated by colons, with the first longest run of two or more zero
  groups written as a double colon.
\<close>

definition hexDigit :: string where
  "hexDigit = ''0123456789abcdef''"

definition hexString :: "byte list \<Rightarrow> string" where
  "hexString b = concat (map (\<lambda>v. [hexDigit ! (unat v div 16), hexDigit ! (unat v mod 16)]) b)"

text \<open>appendHex: the hexadecimal text of a 16-bit group, without leading zeros.\<close>

definition appendHex :: "nat \<Rightarrow> string" where
  "appendHex i =
     (if i = 0 then ''0''
      else dropWhile (\<lambda>c. c = CHR ''0'')
             [hexDigit ! (i div 4096), hexDigit ! ((i div 256) mod 16),
              hexDigit ! ((i div 16) mod 16), hexDigit ! (i mod 16)])"

text \<open>The 16-bit groups of a slice, each from two bytes.\<close>

fun groups :: "byte list \<Rightarrow> nat list" where
  "groups (hi # lo # rest) = (unat hi * 256 + unat lo) # groups rest"
| "groups _ = []"

text \<open>
  The search for the longest run of zero groups, as a scan over the groups: \<open>i\<close> is
  the index of the next group, \<open>cur\<close> the start of the run of zeros that reaches it,
  \<open>best\<close> the run kept so far, as its start and its end. A run replaces the one kept
  only when it is longer, so that the first of the longest runs is kept.
\<close>

definition close_run :: "nat \<Rightarrow> nat option \<Rightarrow> (nat \<times> nat) option \<Rightarrow> (nat \<times> nat) option" where
  "close_run i cur best =
     (case cur of
        None \<Rightarrow> best
      | Some s \<Rightarrow>
          (case best of
             None \<Rightarrow> Some (s, i)
           | Some (e0, e1) \<Rightarrow> if i - s > e1 - e0 then Some (s, i) else best))"

fun scan_runs ::
  "nat list \<Rightarrow> nat \<Rightarrow> nat option \<Rightarrow> (nat \<times> nat) option \<Rightarrow> (nat \<times> nat) option" where
  "scan_runs [] i cur best = close_run i cur best"
| "scan_runs (g # gs) i cur best =
     (if g = 0
      then scan_runs gs (i + 1) (Some (case cur of None \<Rightarrow> i | Some s \<Rightarrow> s)) best
      else scan_runs gs (i + 1) None (close_run i cur best))"

text \<open>A run of one zero group is not shortened.\<close>

definition longest_zero_run :: "nat list \<Rightarrow> (nat \<times> nat) option" where
  "longest_zero_run gs =
     (case scan_runs gs 0 None None of
        None \<Rightarrow> None
      | Some (e0, e1) \<Rightarrow> if e1 - e0 \<le> 1 then None else Some (e0, e1))"

fun join_colon :: "string list \<Rightarrow> string" where
  "join_colon [] = []"
| "join_colon [x] = x"
| "join_colon (x # y # ys) = x @ '':'' @ join_colon (y # ys)"

definition golib_String :: "IP \<Rightarrow> string" where
  "golib_String ip =
     (if length ip = 0 then ''<nil>''
      else (let p4 = To4 ip
            in if length p4 = IPv4len
               then ubtoa (p4 ! 0) @ ''.'' @ ubtoa (p4 ! 1) @ ''.'' @ ubtoa (p4 ! 2) @ ''.''
                      @ ubtoa (p4 ! 3)
               else if length ip \<noteq> IPv6len then ''?'' @ hexString ip
               else (let gs = groups ip
                     in case longest_zero_run gs of
                          None \<Rightarrow> join_colon (map appendHex gs)
                        | Some (e0, e1) \<Rightarrow>
                            join_colon (map appendHex (take e0 gs)) @ ''::''
                              @ join_colon (map appendHex (drop e1 gs)))))"

definition toLower :: "char \<Rightarrow> char" where
  "toLower c =
     (case map_of (zip ''ABCDEFGHIJKLMNOPQRSTUVWXYZ'' ''abcdefghijklmnopqrstuvwxyz'') c of
        Some l \<Rightarrow> l
      | None \<Rightarrow> c)"

definition golib_EqualFold :: "string \<Rightarrow> string \<Rightarrow> bool" where
  "golib_EqualFold s t = (map toLower s = map toLower t)"

definition golib :: library where
  "golib = \<lparr> ParseIP = golib_ParseIP,
             IP_String = golib_String,
             EqualFold = golib_EqualFold,
             BodyToSingleLine = filter (\<lambda>c. c \<noteq> CHR 0x0A \<and> c \<noteq> CHR 0x0D) \<rparr>"

section \<open>Example inputs\<close>

text \<open>
  The DonDominio provider built from the settings \<open>{username: u, password: p, name: n}\<close>
  and the host \<open>@\<close>.
\<close>

definition example_settings :: extraSettings where
  "example_settings = \<lparr> Username = ''u'', Password = ''p'', Name = ''n'' \<rparr>"

definition example_provider :: provider where
  "example_provider =
     \<lparr> provider.domain = ''example.com'', provider.host = ''@'',
       provider.ipVersion = IP4or6, provider.username = ''u'', provider.password = ''p'',
       provider.name = ''n'' \<rparr>"

text \<open>The request that Update builds for this provider and the address 203.0.113.5.\<close>

definition example_request :: request where
  "example_request =
     \<lparr> Method = ''POST'', URL = ''https://simple-api.dondominio.net'',
       Body = [''apiuser'' \<mapsto> [''u''], ''apipasswd'' \<mapsto> [''p''], ''domain'' \<mapsto> [''example.com''],
               ''name'' \<mapsto> [''n''], ''ipv4'' \<mapsto> [''203.0.113.5'']],
       Header = [SetUserAgent, SetContentType ''application/x-www-form-urlencoded'',
                 SetAccept ''application/json''] \<rparr>"

text \<open>
  What the decoder makes of a body in which the provider flags success and reports one
  glue record with the given IPv4 text.
\<close>

definition reported :: "string \<Rightarrow> responseData" where
  "reported s =
     \<lparr> Success = True, ErrorCode = 0, ErrorCodeMessage = '''',
       ResponseData = \<lparr> GlueRecords = [\<lparr> IPv4 = s, IPv6 = '''' \<rparr>] \<rparr> \<rparr>"

text \<open>
  Responses with status 200: a success that reports 203.0.113.5, one that reports
  203.0.113.9, one with no glue record, a failure flagged by the provider, and a body that
  is not JSON.
\<close>

definition response_same :: response where
  \<open>response_same =
     \<lparr> StatusCode = 200,
       Body_text =
         ''{"success":true,"responseData":{"gluerecords":[{"ipv4":"203.0.113.5","ipv6":""}]}}'',
       Body_json = Unmarshalled (reported ''203.0.113.5'') \<rparr>\<close>

definition response_other :: response where
  \<open>response_other =
     \<lparr> StatusCode = 200,
       Body_text =
         ''{"success":true,"responseData":{"gluerecords":[{"ipv4":"203.0.113.9","ipv6":""}]}}'',
       Body_json = Unmarshalled (reported ''203.0.113.9'') \<rparr>\<close>

definition response_no_gluerecords :: response where
  \<open>response_no_gluerecords =
     \<lparr> StatusCode = 200,
       Body_text = ''{"success":true,"responseData":{"gluerecords":[]}}'',
       Body_json = Unmarshalled
         \<lparr> Success = True, ErrorCode = 0, ErrorCodeMessage = '''',
           ResponseData = \<lparr> GlueRecords = [] \<rparr> \<rparr> \<rparr>\<close>

definition failure :: responseData where
  "failure =
     \<lparr> Success = False, ErrorCode = 2003, ErrorCodeMessage = ''Login invalid'',
       ResponseData = \<lparr> GlueRecords = [] \<rparr> \<rparr>"

definition response_failure :: response where
  \<open>response_failure =
     \<lparr> StatusCode = 200,
       Body_text = ''{"success":false,"errorCode":2003,"errorCodeMsg":"Login invalid"}'',
       Body_json = Unmarshalled failure \<rparr>\<close>

definition response_not_json :: response where
  "response_not_json =
     \<lparr> StatusCode = 200,
       Body_text = ''{'',
       Body_json = UnmarshalError ''unexpected EOF'' \<rparr>"

text \<open>An IPv6 address, 2001:db8::1.\<close>

definition example_ip6 :: IP where
  "example_ip6 = [0x20, 0x01, 0x0d, 0xb8, 0, 0, 0, 0, 0, 0, 0, 0, 0, 0, 0, 1]"

text \<open>
  An Aliyun provider for the host \<open>www\<close>, and a client that lists the given records
  and answers every update with the given result.
\<close>

definition example_aliyun_settings :: aliyun_extraSettings where
  "example_aliyun_settings = \<lparr> AccessKeyID = ''id'', AccessSecret = ''secret'', Region = '''' \<rparr>"

definition example_Provider :: Provider where
  "example_Provider =
     \<lparr> Provider.domain = ''example.com'', Provider.host = ''www'',
       Provider.ipVersion = IP4or6, Provider.accessKeyID = ''id'',
       Provider.accessSecret = ''secret'', Provider.region = ''cn-hangzhou'' \<rparr>"

definition example_Client ::
  "alidns_Record list \<Rightarrow> error + UpdateDomainRecordResponse \<Rightarrow> Client" where
  "example_Client records answer =
     \<lparr> DescribeDomainRecords = (\<lambda>_. Inr \<lparr> DomainRecords = records \<rparr>),
       UpdateDomainRecord = (\<lambda>_. answer) \<rparr>"

definition example_listRequest :: DescribeDomainRecordsRequest where
  "example_listRequest =
     \<lparr> DescribeDomainRecordsRequest.Scheme = ''https'', DomainName = ''example.com'',
       RRKeyWord = ''www'' \<rparr>"

definition example_record :: "string \<Rightarrow> string \<Rightarrow> alidns_Record" where
  "example_record rr recordId = \<lparr> alidns_Record.RR = rr, alidns_Record.RecordId = recordId \<rparr>"

definition example_answer :: UpdateDomainRecordResponse where
  "example_answer = \<lparr> RequestId = ''1'', UpdateDomainRecordResponse.RecordId = ''4711'' \<rparr>"

section \<open>Facts about the model\<close>

lemma four_Suc: "(4::nat) = Suc (Suc (Suc (Suc 0)))"
  by simp

lemma golib_ParseIP_5: "golib_ParseIP ''203.0.113.5'' = net_IPv4 203 0 113 5"
  unfolding golib_ParseIP_def parseIPv4_def IPv4len_def four_Suc
  by (simp add: dtoi_def isDigit_def big_def)

lemma golib_ParseIP_9: "golib_ParseIP ''203.0.113.9'' = net_IPv4 203 0 113 9"
  unfolding golib_ParseIP_def parseIPv4_def IPv4len_def four_Suc
  by (simp add: dtoi_def isDigit_def big_def)

lemma golib_String_5: "golib_String [203, 0, 113, 5] = ''203.0.113.5''"
  by (simp add: golib_String_def To4_def IPv4len_def ubtoa_def digit_def)

lemma golib_String_9: "golib_String (net_IPv4 203 0 113 9) = ''203.0.113.9''"
  by (simp add: golib_String_def To4_def IPv4len_def IPv6len_def ubtoa_def digit_def
      net_IPv4_def v4InV6Prefix_def isZeros_def)

lemma golib_String_ip6: "golib_String example_ip6 = ''2001:db8::1''"
  by (simp add: golib_String_def To4_def IPv4len_def IPv6len_def example_ip6_def isZeros_def
      longest_zero_run_def close_run_def appendHex_def hexDigit_def)

lemma To4_example: "To4 [203, 0, 113, 5] = [203, 0, 113, 5]"
  by (simp add: To4_def IPv4len_def)

lemma To4_example_ip6: "To4 example_ip6 = []"
  by (simp add: To4_def IPv4len_def IPv6len_def example_ip6_def isZeros_def)

lemma Equal_example_5: "Equal [203, 0, 113, 5] (net_IPv4 203 0 113 5)"
  by (simp add: Equal_def net_IPv4_def v4InV6Prefix_def IPv4len_def IPv6len_def)

lemma Equal_example_9: "\<not> Equal [203, 0, 113, 5] (net_IPv4 203 0 113 9)"
  by (simp add: Equal_def net_IPv4_def v4InV6Prefix_def IPv4len_def IPv6len_def)

lemma net_IPv4_not_nil: "net_IPv4 a b c d \<noteq> []"
  by (simp add: net_IPv4_def)

lemma example_values:
  "dondominio_values golib example_provider [203, 0, 113, 5] True = Body example_request"
  by (simp add: dondominio_values_def Values_Set_def example_provider_def example_request_def
      golib_def golib_String_5)

text \<open>With a live context Update hands exactly one request to the client.\<close>

lemma dondominio_Update_live:
  "dondominio_Update L p live_Context client ip =
     (let request = setHeaders \<lparr> Method = ''POST'', URL = ''https://simple-api.dondominio.net'',
                       Body = dondominio_values L p ip (To4 ip \<noteq> []), Header = [] \<rparr>
      in (case client request of
            Inl err \<Rightarrow> Return [] (Some err)
          | Inr response \<Rightarrow> dondominio_response L ip (To4 ip \<noteq> []) response,
          [request]))"
  by (simp add: dondominio_Update_def NewRequestWithContext_def Let_def split: sum.splits)

lemma dondominio_Update_nil:
  "dondominio_Update L p nil_Context client ip =
     (Return [] (Some (LibraryError ''net/http: nil Context'')), [])"
  by (simp add: dondominio_Update_def NewRequestWithContext_def Let_def)

lemma dondominio_Update_answered:
  assumes "snd (dondominio_Update L p ctx client ip) = [request]"
    and "client request = Inr response"
  shows "fst (dondominio_Update L p ctx client ip)
           = dondominio_response L ip (To4 ip \<noteq> []) response"
proof (cases ctx)
  case nil_Context
  with assms(1) show ?thesis by (simp add: dondominio_Update_nil)
next
  case live_Context
  with assms show ?thesis by (auto simp: dondominio_Update_live Let_def)
qed

lemma example_Update:
  "dondominio_Update golib example_provider live_Context (\<lambda>_. Inr response) [203, 0, 113, 5]
     = (dondominio_response golib [203, 0, 113, 5] True response, [example_request])"
proof -
  have "setHeaders \<lparr> Method = ''POST'', URL = ''https://simple-api.dondominio.net'',
          Body = Body example_request, Header = [] \<rparr> = example_request"
    by (simp add: setHeaders_def example_request_def)
  then show ?thesis
    by (simp add: dondominio_Update_live To4_example example_values Let_def)
qed

text \<open>
  The reading of a response hands back an address only when it is the parsed, non-nil
  address the provider reports and is equal to the requested one, and then without an
  error.
\<close>

lemma dondominio_response_never_partial:
  assumes "dondominio_response L ip isIPv4 response = Return newIP err"
    and "newIP \<noteq> []"
  shows "err = None \<and> Equal ip newIP"
  using assms
  by (auto simp: dondominio_response_def Let_def split: if_splits json.splits list.splits)

lemma dondominio_Update_never_partial:
  assumes "fst (dondominio_Update L p ctx client ip) = Return newIP err"
    and "newIP \<noteq> []"
  shows "err = None \<and> Equal ip newIP"
proof (cases ctx)
  case nil_Context
  with assms show ?thesis by (simp add: dondominio_Update_nil)
next
  case live_Context
  with assms show ?thesis
    by (auto simp: dondominio_Update_live Let_def split: sum.splits
        dest: dondominio_response_never_partial)
qed

text \<open>The loop finds the first record that matches, and hands back its identifier.\<close>

lemma find_recordID_find:
  "find_recordID L h records =
     (case find (\<lambda>r. EqualFold L (alidns_Record.RR r) h) records of
        None \<Rightarrow> ''''
      | Some r \<Rightarrow> alidns_Record.RecordId r)"
  by (induction records) simp_all

text \<open>Aliyun's Update, once the client is built and the records are listed.\<close>

lemma aliyun_Update_listed:
  assumes "newClient (Provider.region P) (Provider.accessKeyID P) (Provider.accessSecret P)
             = Inr client"
    and "DescribeDomainRecords client
           \<lparr> DescribeDomainRecordsRequest.Scheme = ''https'', DomainName = Provider.domain P,
             RRKeyWord = Provider.host P \<rparr> = Inr resp"
  shows "aliyun_Update L P newClient ip =
     (let listRequest = \<lparr> DescribeDomainRecordsRequest.Scheme = ''https'',
                           DomainName = Provider.domain P, RRKeyWord = Provider.host P \<rparr>;
          recordID = find_recordID L (Provider.host P) (DomainRecords resp);
          request = \<lparr> UpdateDomainRecordRequest.Scheme = ''https'',
                       Value = IP_String L ip,
                       Type = (if To4 ip = [] then constants_AAAA else constants_A),
                       UpdateDomainRecordRequest.RR = Provider.host P,
                       UpdateDomainRecordRequest.RecordId = recordID \<rparr>
      in if recordID = ''''
         then (Return [] (Some ErrRecordNotFound), [Call_DescribeDomainRecords listRequest])
         else (Return ip (case UpdateDomainRecord client request of
                            Inl err \<Rightarrow> Some err | Inr _ \<Rightarrow> None),
               [Call_DescribeDomainRecords listRequest, Call_UpdateDomainRecord request]))"
  using assms
  by (simp add: aliyun_Update_def Let_def split: sum.splits)

lemma aliyun_Update_call_Type:
  assumes "Call_UpdateDomainRecord request \<in> set (snd (aliyun_Update L P newClient ip))"
  shows "Type request = (if To4 ip \<noteq> [] then constants_A else constants_AAAA)"
  using assms
  by (auto simp: aliyun_Update_def Let_def split: sum.splits if_splits)

lemma dondominio_values_family:
  "dondominio_values L p ip isIPv4 ''ipv4'' = (if isIPv4 then Some [IP_String L ip] else None)"
  "dondominio_values L p ip isIPv4 ''ipv6'' = (if isIPv4 then None else Some [IP_String L ip])"
  by (simp_all add: dondominio_values_def Values_Set_def)

section \<open>The claims\<close>

text \<open>
  C1. When the exchange succeeds (the request was sent and answered, the status is 200,
  the body decodes, the provider flags success) and the address that the provider reports
  for the record, read from the field of the first glue record that matches the family of
  the requested address, parses to an address that is not equal to the requested one,
  Update hands back the IP mismatch error with the reported address, and the nil address.
  The reported address is a field of DonDominio's response; the response of Aliyun's
  update call has no address in it, so the claim says nothing more about Aliyun.
\<close>

theorem dondominio_Update_mismatch:
  assumes "snd (dondominio_Update L p ctx client ip) = [request]"
    and "client request = Inr response"
    and "StatusCode response = 200"
    and "Body_json response = Unmarshalled rd"
    and "Success rd"
    and "GlueRecords (ResponseData rd) = first # rest"
    and "ParseIP L (if To4 ip \<noteq> [] then IPv4 first else IPv6 first) = newIP"
    and "newIP \<noteq> []"
    and "\<not> Equal ip newIP"
  shows "fst (dondominio_Update L p ctx client ip)
           = Return [] (Some (ErrIPReceivedMismatch (IP_String L newIP)))"
proof -
  have "fst (dondominio_Update L p ctx client ip)
          = dondominio_response L ip (To4 ip \<noteq> []) response"
    using assms(1,2) by (rule dondominio_Update_answered)
  also have "\<dots> = Return [] (Some (ErrIPReceivedMismatch (IP_String L newIP)))"
    using assms(3-9) by (auto simp: dondominio_response_def Let_def)
  finally show ?thesis .
qed

theorem dondominio_Update_mismatch_witness:
  "fst (dondominio_Update golib example_provider live_Context (\<lambda>_. Inr response_other)
          [203, 0, 113, 5])
     = Return [] (Some (ErrIPReceivedMismatch ''203.0.113.9''))"
proof -
  let ?client = "\<lambda>_::request. (Inr response_other :: error + response)"
  have sent: "snd (dondominio_Update golib example_provider live_Context ?client
                [203, 0, 113, 5]) = [example_request]"
    by (simp add: example_Update)
  have answered: "?client example_request = Inr response_other"
    by simp
  have status: "StatusCode response_other = 200"
    by (simp add: response_other_def)
  have body: "Body_json response_other = Unmarshalled (reported ''203.0.113.9'')"
    by (simp add: response_other_def)
  have flag: "Success (reported ''203.0.113.9'')"
    by (simp add: reported_def)
  have glue: "GlueRecords (ResponseData (reported ''203.0.113.9''))
                = \<lparr> IPv4 = ''203.0.113.9'', IPv6 = '''' \<rparr> # []"
    by (simp add: reported_def)
  have parsed: "ParseIP golib (if To4 [203, 0, 113, 5] \<noteq> []
                   then IPv4 \<lparr> IPv4 = ''203.0.113.9'', IPv6 = '''' \<rparr>
                   else IPv6 \<lparr> IPv4 = ''203.0.113.9'', IPv6 = '''' \<rparr>) = net_IPv4 203 0 113 9"
    by (simp add: To4_example golib_def golib_ParseIP_9)
  from dondominio_Update_mismatch [OF sent answered status body flag glue parsed
      net_IPv4_not_nil Equal_example_9]
  show ?thesis
    by (simp add: golib_def golib_String_9)
qed

text \<open>
  C2. Update never hands back an address together with an error. Aliyun's Update does:
  when the update call fails, its last line hands back the requested address next to the
  error of the call, where every other failure of both providers hands back the nil
  address.
\<close>

theorem aliyun_Update_address_with_error:
  "fst (aliyun_Update golib example_Provider
          (\<lambda>_ _ _. Inr (example_Client [example_record ''www'' ''4711'']
                           (Inl (LibraryError ''SDK.ServerError''))))
          [203, 0, 113, 5])
     = Return [203, 0, 113, 5] (Some (LibraryError ''SDK.ServerError''))"
  by (simp add: aliyun_Update_def example_Provider_def example_Client_def example_record_def
      Let_def golib_def golib_EqualFold_def)

text \<open>
  C3. When the exchange succeeds and the address the provider reports, read from the field
  that matches the family of the requested address, parses to an address equal to the
  requested one, Update hands back that address and no error. The witness is the scenario
  of the specification: the settings u, p, n, the host @, the requested address
  203.0.113.5 and a response that reports 203.0.113.5.
\<close>

theorem dondominio_Update_roundtrip:
  assumes "snd (dondominio_Update L p ctx client ip) = [request]"
    and "client request = Inr response"
    and "StatusCode response = 200"
    and "Body_json response = Unmarshalled rd"
    and "Success rd"
    and "GlueRecords (ResponseData rd) = first # rest"
    and "ParseIP L (if To4 ip \<noteq> [] then IPv4 first else IPv6 first) = newIP"
    and "newIP \<noteq> []"
    and "Equal ip newIP"
  shows "fst (dondominio_Update L p ctx client ip) = Return newIP None"
proof -
  have "fst (dondominio_Update L p ctx client ip)
          = dondominio_response L ip (To4 ip \<noteq> []) response"
    using assms(1,2) by (rule dondominio_Update_answered)
  also have "\<dots> = Return newIP None"
    using assms(3-9) by (auto simp: dondominio_response_def Let_def)
  finally show ?thesis .
qed

theorem dondominio_Update_roundtrip_witness:
  "dondominio_New (Unmarshalled example_settings) ''example.com'' ''@'' IP4or6
     = Inr example_provider
   \<and> fst (dondominio_Update golib example_provider live_Context (\<lambda>_. Inr response_same)
            [203, 0, 113, 5])
     = Return (net_IPv4 203 0 113 5) None"
proof -
  let ?client = "\<lambda>_::request. (Inr response_same :: error + response)"
  have new: "dondominio_New (Unmarshalled example_settings) ''example.com'' ''@'' IP4or6
               = Inr example_provider"
    by (simp add: dondominio_New_def dondominio_isValid_def example_settings_def
        example_provider_def)
  have sent: "snd (dondominio_Update golib example_provider live_Context ?client
                [203, 0, 113, 5]) = [example_request]"
    by (simp add: example_Update)
  have answered: "?client example_request = Inr response_same"
    by simp
  have status: "StatusCode response_same = 200"
    by (simp add: response_same_def)
  have body: "Body_json response_same = Unmarshalled (reported ''203.0.113.5'')"
    by (simp add: response_same_def)
  have flag: "Success (reported ''203.0.113.5'')"
    by (simp add: reported_def)
  have glue: "GlueRecords (ResponseData (reported ''203.0.113.5''))
                = \<lparr> IPv4 = ''203.0.113.5'', IPv6 = '''' \<rparr> # []"
    by (simp add: reported_def)
  have parsed: "ParseIP golib (if To4 [203, 0, 113, 5] \<noteq> []
                   then IPv4 \<lparr> IPv4 = ''203.0.113.5'', IPv6 = '''' \<rparr>
                   else IPv6 \<lparr> IPv4 = ''203.0.113.5'', IPv6 = '''' \<rparr>) = net_IPv4 203 0 113 5"
    by (simp add: To4_example golib_def golib_ParseIP_5)
  from dondominio_Update_roundtrip [OF sent answered status body flag glue parsed
      net_IPv4_not_nil Equal_example_5] new
  show ?thesis
    by simp
qed

text \<open>
  C4. The family of the request depends on the requested address alone, through whether
  it has a 4-byte form. DonDominio, whenever it sends a request (that is, with a context
  that is not nil), sends exactly one, in which the parameter ipv4 holds the text of the
  address and ipv6 is absent when the address has a 4-byte form, and ipv6 holds the text
  and ipv4 is absent otherwise. Aliyun, once the client is built, the records are listed
  and the identifier of the record is found, makes the list call and then exactly one
  update call, whose type is A when the address has a 4-byte form and AAAA otherwise and
  whose value is the text of the address; no update call of any run has another type, and
  the two types differ.
\<close>

theorem request_family:
  "(ctx \<noteq> nil_Context \<longrightarrow>
      (\<exists>request. snd (dondominio_Update L p ctx client ip) = [request]
         \<and> Body request ''ipv4'' = (if To4 ip \<noteq> [] then Some [IP_String L ip] else None)
         \<and> Body request ''ipv6'' = (if To4 ip \<noteq> [] then None else Some [IP_String L ip])))
   \<and> (\<forall>sdk resp.
         newClient (Provider.region P) (Provider.accessKeyID P) (Provider.accessSecret P)
           = Inr sdk
         \<and> DescribeDomainRecords sdk
             \<lparr> DescribeDomainRecordsRequest.Scheme = ''https'', DomainName = Provider.domain P,
               RRKeyWord = Provider.host P \<rparr> = Inr resp
         \<and> find_recordID L (Provider.host P) (DomainRecords resp) \<noteq> ''''
         \<longrightarrow> (\<exists>request. snd (aliyun_Update L P newClient ip)
                  = [Call_DescribeDomainRecords
                       \<lparr> DescribeDomainRecordsRequest.Scheme = ''https'',
                         DomainName = Provider.domain P, RRKeyWord = Provider.host P \<rparr>,
                     Call_UpdateDomainRecord request]
                \<and> Type request = (if To4 ip \<noteq> [] then constants_A else constants_AAAA)
                \<and> Value request = IP_String L ip))
   \<and> (\<forall>request. Call_UpdateDomainRecord request \<in> set (snd (aliyun_Update L P newClient ip))
         \<longrightarrow> Type request = (if To4 ip \<noteq> [] then constants_A else constants_AAAA))
   \<and> constants_A \<noteq> constants_AAAA"
proof (intro conjI impI allI)
  assume "ctx \<noteq> nil_Context"
  then have live: "ctx = live_Context"
    by (cases ctx) simp_all
  show "\<exists>request. snd (dondominio_Update L p ctx client ip) = [request]
         \<and> Body request ''ipv4'' = (if To4 ip \<noteq> [] then Some [IP_String L ip] else None)
         \<and> Body request ''ipv6'' = (if To4 ip \<noteq> [] then None else Some [IP_String L ip])"
    unfolding live dondominio_Update_live Let_def
    by (simp add: setHeaders_def dondominio_values_family)
next
  fix sdk resp
  assume listed:
    "newClient (Provider.region P) (Provider.accessKeyID P) (Provider.accessSecret P) = Inr sdk
     \<and> DescribeDomainRecords sdk
         \<lparr> DescribeDomainRecordsRequest.Scheme = ''https'', DomainName = Provider.domain P,
           RRKeyWord = Provider.host P \<rparr> = Inr resp
     \<and> find_recordID L (Provider.host P) (DomainRecords resp) \<noteq> ''''"
  then show "\<exists>request. snd (aliyun_Update L P newClient ip)
                  = [Call_DescribeDomainRecords
                       \<lparr> DescribeDomainRecordsRequest.Scheme = ''https'',
                         DomainName = Provider.domain P, RRKeyWord = Provider.host P \<rparr>,
                     Call_UpdateDomainRecord request]
                \<and> Type request = (if To4 ip \<noteq> [] then constants_A else constants_AAAA)
                \<and> Value request = IP_String L ip"
    by (simp add: aliyun_Update_listed [of newClient P sdk resp] Let_def)
next
  fix request
  assume "Call_UpdateDomainRecord request \<in> set (snd (aliyun_Update L P newClient ip))"
  then show "Type request = (if To4 ip \<noteq> [] then constants_A else constants_AAAA)"
    by (rule aliyun_Update_call_Type)
next
  show "constants_A \<noteq> constants_AAAA"
    by (simp add: constants_A_def constants_AAAA_def)
qed

theorem request_family_witness:
  "(\<exists>request. snd (dondominio_Update golib example_provider live_Context
                      (\<lambda>_. Inr response_same) [203, 0, 113, 5]) = [request]
       \<and> Body request ''ipv4'' = Some [''203.0.113.5''] \<and> Body request ''ipv6'' = None)
   \<and> (\<exists>request. snd (dondominio_Update golib example_provider live_Context
                      (\<lambda>_. Inr response_same) example_ip6) = [request]
       \<and> Body request ''ipv4'' = None \<and> Body request ''ipv6'' = Some [''2001:db8::1''])
   \<and> (\<exists>request. snd (aliyun_Update golib example_Provider
                      (\<lambda>_ _ _. Inr (example_Client [example_record ''www'' ''4711'']
                                       (Inr example_answer)))
                      [203, 0, 113, 5])
          = [Call_DescribeDomainRecords example_listRequest, Call_UpdateDomainRecord request]
       \<and> Type request = ''A'' \<and> Value request = ''203.0.113.5'')
   \<and> (\<exists>request. snd (aliyun_Update golib example_Provider
                      (\<lambda>_ _ _. Inr (example_Client [example_record ''www'' ''4711'']
                                       (Inr example_answer)))
                      example_ip6)
          = [Call_DescribeDomainRecords example_listRequest, Call_UpdateDomainRecord request]
       \<and> Type request = ''AAAA'' \<and> Value request = ''2001:db8::1'')"
proof -
  let ?client = "\<lambda>_::request. (Inr response_same :: error + response)"
  let ?sdk = "example_Client [example_record ''www'' ''4711''] (Inr example_answer)"
  let ?newClient = "\<lambda>(_::string) (_::string) (_::string). (Inr ?sdk :: error + Client)"
  let ?listRequest = "\<lparr> DescribeDomainRecordsRequest.Scheme = ''https'',
                         DomainName = Provider.domain example_Provider,
                         RRKeyWord = Provider.host example_Provider \<rparr>"
  let ?resp = "\<lparr> DomainRecords = [example_record ''www'' ''4711''] \<rparr>"
  have live: "live_Context \<noteq> nil_Context"
    by simp
  have request: "?listRequest = example_listRequest"
    by (simp add: example_listRequest_def example_Provider_def)
  have listed:
    "?newClient (Provider.region example_Provider) (Provider.accessKeyID example_Provider)
        (Provider.accessSecret example_Provider) = Inr ?sdk
     \<and> DescribeDomainRecords ?sdk ?listRequest = Inr ?resp
     \<and> find_recordID golib (Provider.host example_Provider) (DomainRecords ?resp) \<noteq> ''''"
    by (simp add: example_Client_def example_record_def example_Provider_def golib_def
        golib_EqualFold_def)
  have text4: "IP_String golib [203, 0, 113, 5] = ''203.0.113.5''"
    by (simp add: golib_def golib_String_5)
  have text6: "IP_String golib example_ip6 = ''2001:db8::1''"
    by (simp add: golib_def golib_String_ip6)
  note family4 = request_family [where ctx = live_Context and L = golib
      and p = example_provider and client = ?client and ip = "[203, 0, 113, 5]"
      and newClient = ?newClient and P = example_Provider]
  note family6 = request_family [where ctx = live_Context and L = golib
      and p = example_provider and client = ?client and ip = example_ip6
      and newClient = ?newClient and P = example_Provider]
  from family4 live have dondominio4:
    "\<exists>request. snd (dondominio_Update golib example_provider live_Context ?client
                    [203, 0, 113, 5]) = [request]
       \<and> Body request ''ipv4'' = Some [''203.0.113.5''] \<and> Body request ''ipv6'' = None"
    by (simp add: To4_example text4)
  from family6 live have dondominio6:
    "\<exists>request. snd (dondominio_Update golib example_provider live_Context ?client
                    example_ip6) = [request]
       \<and> Body request ''ipv4'' = None \<and> Body request ''ipv6'' = Some [''2001:db8::1'']"
    by (simp add: To4_example_ip6 text6)
  from family4 have
    "\<exists>request. snd (aliyun_Update golib example_Provider ?newClient [203, 0, 113, 5])
          = [Call_DescribeDomainRecords ?listRequest, Call_UpdateDomainRecord request]
       \<and> Type request = (if To4 [203, 0, 113, 5] \<noteq> [] then constants_A else constants_AAAA)
       \<and> Value request = IP_String golib [203, 0, 113, 5]"
    using listed by blast
  then have aliyun4:
    "\<exists>request. snd (aliyun_Update golib example_Provider ?newClient [203, 0, 113, 5])
          = [Call_DescribeDomainRecords example_listRequest, Call_UpdateDomainRecord request]
       \<and> Type request = ''A'' \<and> Value request = ''203.0.113.5''"
    by (simp add: request To4_example text4 constants_A_def)
  from family6 have
    "\<exists>request. snd (aliyun_Update golib example_Provider ?newClient example_ip6)
          = [Call_DescribeDomainRecords ?listRequest, Call_UpdateDomainRecord request]
       \<and> Type request = (if To4 example_ip6 \<noteq> [] then constants_A else constants_AAAA)
       \<and> Value request = IP_String golib example_ip6"
    using listed by blast
  then have aliyun6:
    "\<exists>request. snd (aliyun_Update golib example_Provider ?newClient example_ip6)
          = [Call_DescribeDomainRecords example_listRequest, Call_UpdateDomainRecord request]
       \<and> Type request = ''AAAA'' \<and> Value request = ''2001:db8::1''"
    by (simp add: request To4_example_ip6 text6 constants_AAAA_def)
  from dondominio4 dondominio6 aliyun4 aliyun6 show ?thesis
    by simp
qed

text \<open>
  C5. The error that New reports for decoded settings is that of the first empty field in
  the order of declaration: for DonDominio the username, then the password, then the name,
  and only when all three are filled the host, which must be @ (an empty host stands for
  @); for Aliyun the access key identifier, then the access secret. One error is reported,
  the first; with no rule violated, none. New is given the settings, the domain, the host
  and the address family preference, and no client: it makes no call.
\<close>

theorem New_validation_order:
  "(case dondominio_New (Unmarshalled s) d h v of Inl err \<Rightarrow> Some err | Inr _ \<Rightarrow> None) =
     (if Username s = '''' then Some ErrEmptyUsername
      else if Password s = '''' then Some ErrEmptyPassword
      else if Name s = '''' then Some ErrEmptyName
      else if h \<noteq> '''' \<and> h \<noteq> ''@'' then Some ErrHostOnlyAt
      else None)
   \<and> (case aliyun_New (Unmarshalled a) d h v of Inl err \<Rightarrow> Some err | Inr _ \<Rightarrow> None) =
     (if AccessKeyID a = '''' then Some ErrEmptyAccessKeyID
      else if AccessSecret a = '''' then Some ErrEmptyAccessKeySecret
      else None)"
  by (simp add: dondominio_New_def dondominio_isValid_def aliyun_New_def aliyun_isValid_def
      Let_def)

text \<open>
  C6. Once the client is built and the records are listed: when no listed record has an RR
  equal to the host under case folding, Update hands back the record-not-found error and
  makes no update call. When some record matches, the first one that does decides: if its
  identifier is not empty, the update call is made with that identifier; if its identifier
  is empty, Update hands back the record-not-found error and makes no update call, whatever
  the later records are, since the empty identifier is what the loop starts from.
\<close>

theorem aliyun_Update_lookup:
  assumes "newClient (Provider.region P) (Provider.accessKeyID P) (Provider.accessSecret P)
             = Inr client"
    and "listRequest = \<lparr> DescribeDomainRecordsRequest.Scheme = ''https'',
                          DomainName = Provider.domain P, RRKeyWord = Provider.host P \<rparr>"
    and "DescribeDomainRecords client listRequest = Inr resp"
  shows "(\<not> (\<exists>r \<in> set (DomainRecords resp). EqualFold L (alidns_Record.RR r) (Provider.host P))
            \<longrightarrow> aliyun_Update L P newClient ip
                  = (Return [] (Some ErrRecordNotFound), [Call_DescribeDomainRecords listRequest]))
       \<and> (\<forall>r. find (\<lambda>r. EqualFold L (alidns_Record.RR r) (Provider.host P)) (DomainRecords resp)
                  = Some r
            \<longrightarrow> (if alidns_Record.RecordId r = ''''
                 then aliyun_Update L P newClient ip
                        = (Return [] (Some ErrRecordNotFound),
                           [Call_DescribeDomainRecords listRequest])
                 else (\<exists>request. snd (aliyun_Update L P newClient ip)
                          = [Call_DescribeDomainRecords listRequest,
                             Call_UpdateDomainRecord request]
                        \<and> UpdateDomainRecordRequest.RecordId request
                            = alidns_Record.RecordId r)))"
proof (intro conjI impI allI)
  assume "\<not> (\<exists>r \<in> set (DomainRecords resp). EqualFold L (alidns_Record.RR r) (Provider.host P))"
  then have "find (\<lambda>r. EqualFold L (alidns_Record.RR r) (Provider.host P)) (DomainRecords resp)
               = None"
    by (simp add: find_None_iff)
  then have "find_recordID L (Provider.host P) (DomainRecords resp) = ''''"
    by (simp add: find_recordID_find)
  then show "aliyun_Update L P newClient ip
               = (Return [] (Some ErrRecordNotFound), [Call_DescribeDomainRecords listRequest])"
    using assms by (simp add: aliyun_Update_listed Let_def)
next
  fix r
  assume "find (\<lambda>r. EqualFold L (alidns_Record.RR r) (Provider.host P)) (DomainRecords resp)
            = Some r"
  then have found: "find_recordID L (Provider.host P) (DomainRecords resp)
                      = alidns_Record.RecordId r"
    by (simp add: find_recordID_find)
  show "if alidns_Record.RecordId r = ''''
        then aliyun_Update L P newClient ip
               = (Return [] (Some ErrRecordNotFound), [Call_DescribeDomainRecords listRequest])
        else (\<exists>request. snd (aliyun_Update L P newClient ip)
                 = [Call_DescribeDomainRecords listRequest, Call_UpdateDomainRecord request]
               \<and> UpdateDomainRecordRequest.RecordId request = alidns_Record.RecordId r)"
    using assms found by (simp add: aliyun_Update_listed Let_def)
qed

theorem aliyun_Update_lookup_witness:
  "aliyun_Update golib example_Provider
      (\<lambda>_ _ _. Inr (example_Client [example_record ''mail'' ''4710''] (Inr example_answer)))
      [203, 0, 113, 5]
     = (Return [] (Some ErrRecordNotFound), [Call_DescribeDomainRecords example_listRequest])
   \<and> (\<exists>request. snd (aliyun_Update golib example_Provider
                  (\<lambda>_ _ _. Inr (example_Client
                     [example_record ''mail'' ''4710'', example_record ''WWW'' ''4711'',
                      example_record ''www'' ''4712''] (Inr example_answer)))
                  [203, 0, 113, 5])
          = [Call_DescribeDomainRecords example_listRequest, Call_UpdateDomainRecord request]
        \<and> UpdateDomainRecordRequest.RecordId request = ''4711'')"
proof -
  let ?none = "[example_record ''mail'' ''4710'']"
  let ?some = "[example_record ''mail'' ''4710'', example_record ''WWW'' ''4711'',
                example_record ''www'' ''4712'']"
  let ?new = "\<lambda>records. \<lambda>(_::string) (_::string) (_::string).
                (Inr (example_Client records (Inr example_answer)) :: error + Client)"
  have request: "example_listRequest =
      \<lparr> DescribeDomainRecordsRequest.Scheme = ''https'',
        DomainName = Provider.domain example_Provider,
        RRKeyWord = Provider.host example_Provider \<rparr>"
    by (simp add: example_listRequest_def example_Provider_def)
  have listed: "DescribeDomainRecords (example_Client records (Inr example_answer))
                  example_listRequest = Inr \<lparr> DomainRecords = records \<rparr>" for records
    by (simp add: example_Client_def)
  have no_match: "\<not> (\<exists>r \<in> set (DomainRecords \<lparr> DomainRecords = ?none \<rparr>).
                     EqualFold golib (alidns_Record.RR r) (Provider.host example_Provider))"
    by (simp add: golib_def golib_EqualFold_def example_record_def example_Provider_def)
  have first_match: "find (\<lambda>r. EqualFold golib (alidns_Record.RR r)
                               (Provider.host example_Provider))
                       (DomainRecords \<lparr> DomainRecords = ?some \<rparr>)
                     = Some (example_record ''WWW'' ''4711'')"
    by (simp add: golib_def golib_EqualFold_def example_record_def example_Provider_def
        toLower_def)
  have first_id: "alidns_Record.RecordId (example_record ''WWW'' ''4711'') = ''4711''"
    by (simp add: example_record_def)
  from aliyun_Update_lookup [of "?new ?none" example_Provider _ example_listRequest _ golib
      "[203, 0, 113, 5]", OF refl request listed]
    aliyun_Update_lookup [of "?new ?some" example_Provider _ example_listRequest _ golib
      "[203, 0, 113, 5]", OF refl request listed]
    no_match first_match first_id
  show ?thesis
    by simp
qed

theorem aliyun_Update_lookup_counterexample:
  "EqualFold golib (alidns_Record.RR (example_record ''WWW'' ''''))
     (Provider.host example_Provider)
   \<and> aliyun_Update golib example_Provider
        (\<lambda>_ _ _. Inr (example_Client [example_record ''WWW'' '''', example_record ''www'' ''4711'']
                         (Inr example_answer)))
        [203, 0, 113, 5]
     = (Return [] (Some ErrRecordNotFound), [Call_DescribeDomainRecords example_listRequest])"
  by (simp add: aliyun_Update_def example_Provider_def example_Client_def example_record_def
      example_listRequest_def Let_def golib_def golib_EqualFold_def toLower_def)

text \<open>
  C7. When the request was sent and answered with status 200: a body that decodes and in
  which the provider flags a failure gives the unsuccessful-response error with the
  provider's message and code, and a body that does not decode gives the
  unmarshal-response error with the decoder's message; both come with the nil address.
\<close>

theorem dondominio_Update_unsuccessful:
  assumes "snd (dondominio_Update L p ctx client ip) = [request]"
    and "client request = Inr response"
    and "StatusCode response = 200"
  shows "(\<forall>rd. Body_json response = Unmarshalled rd \<and> \<not> Success rd
            \<longrightarrow> fst (dondominio_Update L p ctx client ip)
                  = Return [] (Some (ErrUnsuccessfulResponse (ErrorCodeMessage rd)
                                       (ErrorCode rd))))
       \<and> (\<forall>err. Body_json response = UnmarshalError err
            \<longrightarrow> fst (dondominio_Update L p ctx client ip)
                  = Return [] (Some (ErrUnmarshalResponse err)))"
proof -
  have "fst (dondominio_Update L p ctx client ip)
          = dondominio_response L ip (To4 ip \<noteq> []) response"
    using assms(1,2) by (rule dondominio_Update_answered)
  then show ?thesis
    using assms(3) by (simp add: dondominio_response_def)
qed

theorem dondominio_Update_unsuccessful_witness:
  "fst (dondominio_Update golib example_provider live_Context (\<lambda>_. Inr response_failure)
          [203, 0, 113, 5])
     = Return [] (Some (ErrUnsuccessfulResponse ''Login invalid'' 2003))
   \<and> fst (dondominio_Update golib example_provider live_Context (\<lambda>_. Inr response_not_json)
            [203, 0, 113, 5])
     = Return [] (Some (ErrUnmarshalResponse ''unexpected EOF''))"
proof -
  have sent: "snd (dondominio_Update golib example_provider live_Context (\<lambda>_. Inr response)
                [203, 0, 113, 5]) = [example_request]" for response
    by (simp add: example_Update)
  have status: "StatusCode response_failure = 200" "StatusCode response_not_json = 200"
    by (simp_all add: response_failure_def response_not_json_def)
  have body: "Body_json response_failure = Unmarshalled failure"
    "Body_json response_not_json = UnmarshalError ''unexpected EOF''"
    by (simp_all add: response_failure_def response_not_json_def)
  have flag: "\<not> Success failure" "ErrorCodeMessage failure = ''Login invalid''"
    "ErrorCode failure = 2003"
    by (simp_all add: failure_def)
  from dondominio_Update_unsuccessful [OF sent refl status(1)]
    dondominio_Update_unsuccessful [OF sent refl status(2)] body flag
  show ?thesis
    by simp
qed

text \<open>
  C8. A DonDominio provider constructed with an empty host has the host @, and settings
  with a username, a password and a name do give a provider when the host is empty. An
  Aliyun provider has the host it was constructed with, so that an empty host stays empty:
  the default is DonDominio's, whose only valid host is @.
\<close>

theorem New_host_default:
  "(dondominio_New data d '''' v = Inr p \<longrightarrow> dondominio_Host p = ''@'')
   \<and> (aliyun_New data' d h v = Inr P \<longrightarrow> aliyun_Host P = h)
   \<and> (Username s \<noteq> '''' \<and> Password s \<noteq> '''' \<and> Name s \<noteq> '''' \<longrightarrow>
        dondominio_New (Unmarshalled s) d '''' v =
          Inr \<lparr> provider.domain = d, provider.host = ''@'', provider.ipVersion = v,
                provider.username = Username s, provider.password = Password s,
                provider.name = Name s \<rparr>)"
  by (auto simp: dondominio_New_def dondominio_isValid_def dondominio_Host_def aliyun_New_def
      aliyun_isValid_def aliyun_Host_def Let_def split: json.splits if_splits)

theorem New_host_default_witness:
  "dondominio_New (Unmarshalled example_settings) ''example.com'' '''' IP4or6
     = Inr example_provider
   \<and> dondominio_Host example_provider = ''@''
   \<and> aliyun_New (Unmarshalled example_aliyun_settings) ''example.com'' ''www'' IP4or6
     = Inr example_Provider
   \<and> aliyun_Host example_Provider = ''www''"
proof -
  have filled: "Username example_settings \<noteq> '''' \<and> Password example_settings \<noteq> ''''
                  \<and> Name example_settings \<noteq> ''''"
    by (simp add: example_settings_def)
  have built: "\<lparr> provider.domain = ''example.com'', provider.host = ''@'',
                  provider.ipVersion = IP4or6, provider.username = Username example_settings,
                  provider.password = Password example_settings,
                  provider.name = Name example_settings \<rparr> = example_provider"
    by (simp add: example_settings_def example_provider_def)
  have aliyun: "aliyun_New (Unmarshalled example_aliyun_settings) ''example.com'' ''www'' IP4or6
                  = Inr example_Provider"
    by (simp add: aliyun_New_def aliyun_isValid_def example_aliyun_settings_def
        example_Provider_def)
  from New_host_default [where data = "Unmarshalled example_settings" and d = "''example.com''"
      and v = IP4or6 and p = example_provider
      and data' = "Unmarshalled example_aliyun_settings" and h = "''www''"
      and P = example_Provider and s = example_settings]
    filled built aliyun
  show ?thesis
    by simp
qed

theorem aliyun_New_host_counterexample:
  "aliyun_New (Unmarshalled example_aliyun_settings) ''example.com'' '''' IP4or6
     = Inr (example_Provider\<lparr> Provider.host := '''' \<rparr>)
   \<and> aliyun_Host (example_Provider\<lparr> Provider.host := '''' \<rparr>) \<noteq> ''@''"
  by (simp add: aliyun_New_def aliyun_isValid_def aliyun_Host_def example_aliyun_settings_def
      example_Provider_def)

text \<open>
  C9. Update is not total on the decoded responses: on a response with status 200 in
  which the provider flags success and lists no glue record, reading the first glue record
  is out of range, and Update panics where the claim asks for an error.
\<close>

theorem dondominio_Update_no_gluerecords:
  "fst (dondominio_Update golib example_provider live_Context
          (\<lambda>_. Inr response_no_gluerecords) [203, 0, 113, 5])
     = Panic_index_out_of_range"
  by (simp add: example_Update dondominio_response_def response_no_gluerecords_def)

text \<open>
  C10. For settings with an access key identifier and an access secret, the Aliyun
  provider that New builds has the region cn-hangzhou when the settings give an empty
  region (or none) and the region of the settings otherwise; the domain, the host, the
  address family preference, the key identifier and the secret are those given.
\<close>

theorem aliyun_New_region:
  assumes "AccessKeyID a \<noteq> ''''"
    and "AccessSecret a \<noteq> ''''"
  shows "aliyun_New (Unmarshalled a) d h v =
           Inr \<lparr> Provider.domain = d, Provider.host = h, Provider.ipVersion = v,
                 Provider.accessKeyID = AccessKeyID a,
                 Provider.accessSecret = AccessSecret a,
                 Provider.region = (if Region a = '''' then ''cn-hangzhou'' else Region a) \<rparr>"
  using assms
  by (simp add: aliyun_New_def aliyun_isValid_def Let_def)

theorem aliyun_New_region_witness:
  "aliyun_New (Unmarshalled example_aliyun_settings) ''example.com'' ''www'' IP4or6
     = Inr example_Provider
   \<and> aliyun_New (Unmarshalled (example_aliyun_settings\<lparr> Region := ''eu-central-1'' \<rparr>))
        ''example.com'' ''www'' IP4or6
     = Inr (example_Provider\<lparr> Provider.region := ''eu-central-1'' \<rparr>)"
proof -
  let ?other = "example_aliyun_settings\<lparr> Region := ''eu-central-1'' \<rparr>"
  have filled: "AccessKeyID example_aliyun_settings \<noteq> ''''"
    "AccessSecret example_aliyun_settings \<noteq> ''''"
    "AccessKeyID ?other \<noteq> ''''" "AccessSecret ?other \<noteq> ''''"
    by (simp_all add: example_aliyun_settings_def)
  from aliyun_New_region [OF filled(1,2), of "''example.com''" "''www''" IP4or6]
    aliyun_New_region [OF filled(3,4), of "''example.com''" "''www''" IP4or6]
  show ?thesis
    by (simp add: example_aliyun_settings_def example_Provider_def)
qed

end
